theory Spec2Isabelle
  imports Main "HOL-Library.Word"
begin

section \<open>Strings and errors\<close>

text \<open>
  A Go string is a sequence of bytes; \<^typ>\<open>string\<close> (a list of 8-bit characters) is
  the same thing.  A rune is an integer.  The route matcher compares strings after
  \<^verbatim>\<open>strings.ToLower\<close>, a function of the Go standard library; this section models
  it, with the parts of \<^verbatim>\<open>unicode/utf8\<close> and \<^verbatim>\<open>unicode\<close> it rests on.
\<close>

definition toLower_byte :: "char \<Rightarrow> char" where
  "toLower_byte c =
     (let n = (of_char c :: nat) in if 65 \<le> n \<and> n \<le> 90 then char_of (n + 32) else c)"

definition isASCII :: "string \<Rightarrow> bool" where
  "isASCII s = list_all (\<lambda>c. (of_char c :: nat) < 128) s"

definition RuneError :: int where
  "RuneError = 65533"

text \<open>
  \<^verbatim>\<open>utf8.DecodeRuneInString\<close>: the first rune of a string and its width in bytes.
  A first byte 80..C1 or F5..FF is invalid.  A first byte C2..DF opens two bytes,
  E0..EF three, F0..F4 four; the second byte has to lie in 80..BF, narrowed to
  A0..BF after E0, 80..9F after ED, 90..BF after F0 and 80..8F after F4 (no overlong
  form, no surrogate, nothing above U+10FFFF); the later bytes in 80..BF.
  Whatever is invalid or cut short yields \<open>RuneError\<close> (U+FFFD) with width 1.
\<close>

fun DecodeRuneInString :: "string \<Rightarrow> int \<times> nat" where
  "DecodeRuneInString [] = (RuneError, 0)"
| "DecodeRuneInString (c0 # rest) =
     (let s0 = (of_char c0 :: int) in
      if s0 < 128 then (s0, 1)
      else if s0 < 194 \<or> 244 < s0 then (RuneError, 1)
      else
        (let sz = (if s0 < 224 then 2 else if s0 < 240 then 3 else 4 :: nat);
             lo = (if s0 = 224 then 160 else if s0 = 240 then 144 else 128 :: int);
             hi = (if s0 = 237 then 159 else if s0 = 244 then 143 else 191 :: int)
         in if Suc (length rest) < sz then (RuneError, 1)
            else
              (let s1 = (of_char (rest ! 0) :: int) in
               if s1 < lo \<or> hi < s1 then (RuneError, 1)
               else if sz \<le> 2 then ((s0 mod 32) * 64 + s1 mod 64, 2)
               else
                 (let s2 = (of_char (rest ! 1) :: int) in
                  if s2 < 128 \<or> 191 < s2 then (RuneError, 1)
                  else if sz \<le> 3 then
                    ((s0 mod 16) * 4096 + (s1 mod 64) * 64 + s2 mod 64, 3)
                  else
                    (let s3 = (of_char (rest ! 2) :: int) in
                     if s3 < 128 \<or> 191 < s3 then (RuneError, 1)
                     else ((s0 mod 8) * 262144 + (s1 mod 64) * 4096
                             + (s2 mod 64) * 64 + s3 mod 64, 4))))))"

text \<open>The runes of a string, as \<^verbatim>\<open>for _, c := range s\<close> yields them.\<close>

fun decodeRunes :: "string \<Rightarrow> int list" where
  "decodeRunes [] = []"
| "decodeRunes (c # cs) =
     (case DecodeRuneInString (c # cs) of (r, w) \<Rightarrow> r # decodeRunes (drop (w - 1) cs))"

text \<open>
  \<^verbatim>\<open>utf8.AppendRune\<close>: the UTF-8 form of a rune; a surrogate or a value outside
  0..U+10FFFF is written as U+FFFD.
\<close>

definition encode3 :: "int \<Rightarrow> string" where
  "encode3 r = [char_of (224 + r div 4096), char_of (128 + (r div 64) mod 64),
                char_of (128 + r mod 64)]"

definition AppendRune :: "int \<Rightarrow> string" where
  "AppendRune r =
     (if 0 \<le> r \<and> r \<le> 127 then [char_of r]
      else if 0 \<le> r \<and> r \<le> 2047 then [char_of (192 + r div 64), char_of (128 + r mod 64)]
      else if r < 0 \<or> 1114111 < r \<or> (55296 \<le> r \<and> r \<le> 57343) then encode3 RuneError
      else if r \<le> 65535 then encode3 r
      else [char_of (240 + r div 262144), char_of (128 + (r div 4096) mod 64),
            char_of (128 + (r div 64) mod 64), char_of (128 + r mod 64)])"

text \<open>
  \<^verbatim>\<open>strings.Map\<close>: every rune of the string is mapped, and the result written
  unless it is negative.  An invalid byte is read as U+FFFD and so written as the
  three bytes EF BF BD.  (The library copies an unchanged prefix as it is; such a
  prefix is valid UTF-8, which its runes encode back to.)
\<close>

definition strings_Map :: "(int \<Rightarrow> int) \<Rightarrow> string \<Rightarrow> string" where
  "strings_Map mapping s =
     concat (map (\<lambda>c. let r = mapping c in if 0 \<le> r then AppendRune r else [])
               (decodeRunes s))"

text \<open>
  The lower-case column of \<^verbatim>\<open>unicode.CaseRanges\<close>, for the runes above U+007F: the
  simple lower-case mapping of the Unicode Character Database 15.0 (the one of
  14.0 is the same), which the library's table is generated from.  An entry is a
  range and either the distance to the lower-case rune or, for \<open>None\<close>, the
  library's \<^verbatim>\<open>UpperLower\<close> mark: the range alternates upper and lower case, and a
  rune at an even offset moves up by one.  A rune in no range has no lower case
  of its own and stays.
\<close>

definition lowerCaseRanges :: "(int \<times> int \<times> int option) list" where
  "lowerCaseRanges =
    [(192, 214, Some 32), (216, 222, Some 32), (256, 302, None), (304, 304, Some (- 199)),
     (306, 310, None), (313, 327, None), (330, 374, None), (376, 376, Some (- 121)),
     (377, 381, None), (385, 385, Some 210), (386, 388, None), (390, 390, Some 206),
     (391, 391, Some 1), (393, 394, Some 205), (395, 395, Some 1), (398, 398, Some 79),
     (399, 399, Some 202), (400, 400, Some 203), (401, 401, Some 1), (403, 403, Some 205),
     (404, 404, Some 207), (406, 406, Some 211), (407, 407, Some 209), (408, 408, Some 1),
     (412, 412, Some 211), (413, 413, Some 213), (415, 415, Some 214), (416, 420, None),
     (422, 422, Some 218), (423, 423, Some 1), (425, 425, Some 218), (428, 428, Some 1),
     (430, 430, Some 218), (431, 431, Some 1), (433, 434, Some 217), (435, 437, None),
     (439, 439, Some 219), (440, 440, Some 1), (444, 444, Some 1), (452, 452, Some 2),
     (453, 453, Some 1), (455, 455, Some 2), (456, 456, Some 1), (458, 458, Some 2),
     (459, 475, None), (478, 494, None), (497, 497, Some 2), (498, 500, None),
     (502, 502, Some (- 97)), (503, 503, Some (- 56)), (504, 542, None),
     (544, 544, Some (- 130)), (546, 562, None), (570, 570, Some 10795),
     (571, 571, Some 1), (573, 573, Some (- 163)), (574, 574, Some 10792),
     (577, 577, Some 1), (579, 579, Some (- 195)), (580, 580, Some 69),
     (581, 581, Some 71), (582, 590, None), (880, 882, None), (886, 886, Some 1),
     (895, 895, Some 116), (902, 902, Some 38), (904, 906, Some 37), (908, 908, Some 64),
     (910, 911, Some 63), (913, 929, Some 32), (931, 939, Some 32), (975, 975, Some 8),
     (984, 1006, None), (1012, 1012, Some (- 60)), (1015, 1015, Some 1),
     (1017, 1017, Some (- 7)), (1018, 1018, Some 1), (1021, 1023, Some (- 130)),
     (1024, 1039, Some 80), (1040, 1071, Some 32), (1120, 1152, None), (1162, 1214, None),
     (1216, 1216, Some 15), (1217, 1229, None), (1232, 1326, None), (1329, 1366, Some 48),
     (4256, 4293, Some 7264), (4295, 4295, Some 7264), (4301, 4301, Some 7264),
     (5024, 5103, Some 38864), (5104, 5109, Some 8), (7312, 7354, Some (- 3008)),
     (7357, 7359, Some (- 3008)), (7680, 7828, None), (7838, 7838, Some (- 7615)),
     (7840, 7934, None), (7944, 7951, Some (- 8)), (7960, 7965, Some (- 8)),
     (7976, 7983, Some (- 8)), (7992, 7999, Some (- 8)), (8008, 8013, Some (- 8)),
     (8025, 8025, Some (- 8)), (8027, 8027, Some (- 8)), (8029, 8029, Some (- 8)),
     (8031, 8031, Some (- 8)), (8040, 8047, Some (- 8)), (8072, 8079, Some (- 8)),
     (8088, 8095, Some (- 8)), (8104, 8111, Some (- 8)), (8120, 8121, Some (- 8)),
     (8122, 8123, Some (- 74)), (8124, 8124, Some (- 9)), (8136, 8139, Some (- 86)),
     (8140, 8140, Some (- 9)), (8152, 8153, Some (- 8)), (8154, 8155, Some (- 100)),
     (8168, 8169, Some (- 8)), (8170, 8171, Some (- 112)), (8172, 8172, Some (- 7)),
     (8184, 8185, Some (- 128)), (8186, 8187, Some (- 126)), (8188, 8188, Some (- 9)),
     (8486, 8486, Some (- 7517)), (8490, 8490, Some (- 8383)), (8491, 8491, Some (- 8262)),
     (8498, 8498, Some 28), (8544, 8559, Some 16), (8579, 8579, Some 1),
     (9398, 9423, Some 26), (11264, 11311, Some 48), (11360, 11360, Some 1),
     (11362, 11362, Some (- 10743)), (11363, 11363, Some (- 3814)),
     (11364, 11364, Some (- 10727)), (11367, 11371, None), (11373, 11373, Some (- 10780)),
     (11374, 11374, Some (- 10749)), (11375, 11375, Some (- 10783)),
     (11376, 11376, Some (- 10782)), (11378, 11378, Some 1), (11381, 11381, Some 1),
     (11390, 11391, Some (- 10815)), (11392, 11490, None), (11499, 11501, None),
     (11506, 11506, Some 1), (42560, 42604, None), (42624, 42650, None),
     (42786, 42798, None), (42802, 42862, None), (42873, 42875, None),
     (42877, 42877, Some (- 35332)), (42878, 42886, None), (42891, 42891, Some 1),
     (42893, 42893, Some (- 42280)), (42896, 42898, None), (42902, 42920, None),
     (42922, 42922, Some (- 42308)), (42923, 42923, Some (- 42319)),
     (42924, 42924, Some (- 42315)), (42925, 42925, Some (- 42305)),
     (42926, 42926, Some (- 42308)), (42928, 42928, Some (- 42258)),
     (42929, 42929, Some (- 42282)), (42930, 42930, Some (- 42261)),
     (42931, 42931, Some 928), (42932, 42946, None), (42948, 42948, Some (- 48)),
     (42949, 42949, Some (- 42307)), (42950, 42950, Some (- 35384)), (42951, 42953, None),
     (42960, 42960, Some 1), (42966, 42968, None), (42997, 42997, Some 1),
     (65313, 65338, Some 32), (66560, 66599, Some 40), (66736, 66771, Some 40),
     (66928, 66938, Some 39), (66940, 66954, Some 39), (66956, 66962, Some 39),
     (66964, 66965, Some 39), (68736, 68786, Some 64), (71840, 71871, Some 32),
     (93760, 93791, Some 32), (125184, 125217, Some 34)]"

fun lookup_lower :: "(int \<times> int \<times> int option) list \<Rightarrow> int \<Rightarrow> int" where
  "lookup_lower [] r = r"
| "lookup_lower ((lo, hi, d) # rest) r =
     (if lo \<le> r \<and> r \<le> hi then
        (case d of
           Some k \<Rightarrow> r + k
         | None \<Rightarrow> if (r - lo) mod 2 = 0 then r + 1 else r)
      else lookup_lower rest r)"

definition unicode_ToLower :: "int \<Rightarrow> int" where
  "unicode_ToLower r =
     (if r \<le> 127 then (if 65 \<le> r \<and> r \<le> 90 then r + 32 else r)
      else lookup_lower lowerCaseRanges r)"

text \<open>
  \<^verbatim>\<open>strings.ToLower\<close>: a string whose bytes are all below 0x80 has its letters A..Z
  replaced by a..z; any other string goes through \<open>strings_Map\<close> with
  \<open>unicode_ToLower\<close>.
\<close>

definition strings_ToLower :: "string \<Rightarrow> string" where
  "strings_ToLower s =
     (if isASCII s then map toLower_byte s else strings_Map unicode_ToLower s)"

text \<open>
  The comparison the specification names for the string predicates of a search
  route: two strings are equal once the ASCII letters of both are folded to lower
  case, every other byte compared as it is.
\<close>

definition ascii_case_insensitive_eq :: "string \<Rightarrow> string \<Rightarrow> bool" where
  "ascii_case_insensitive_eq a b = (map toLower_byte a = map toLower_byte b)"

text \<open>\<^verbatim>\<open>strings.Contains(s, substr)\<close>: some suffix of \<open>s\<close> starts with \<open>substr\<close>.\<close>

fun starts_with :: "string \<Rightarrow> string \<Rightarrow> bool" where
  "starts_with s [] = True"
| "starts_with [] (c # cs) = False"
| "starts_with (x # xs) (c # cs) = (x = c \<and> starts_with xs cs)"

fun strings_Contains :: "string \<Rightarrow> string \<Rightarrow> bool" where
  "strings_Contains [] substr = (substr = [])"
| "strings_Contains (x # xs) substr = (starts_with (x # xs) substr \<or> strings_Contains xs substr)"

text \<open>
  Errors.  The two sentinels are package variables declared outside the files at
  hand; \<open>NetErr\<close> is an error handed over by the operating system's network layer,
  known by its text; \<open>Errorf\<close> is \<^verbatim>\<open>fmt.Errorf\<close> with a trailing \<^verbatim>\<open>%w\<close>: the text
  before the wrapped error, and the wrapped error.  Arguments of \<^verbatim>\<open>%d\<close> and \<^verbatim>\<open>%v\<close>
  are not rendered: the verb stays in the text.
\<close>

datatype error =
    ErrInvalidParameter
  | ErrInternal
  | ErrUnsupportedOperation
  | NetErr string
  | Errorf string error

fun Error :: "error \<Rightarrow> string" where
  "Error ErrInvalidParameter = ''invalid parameter''"
| "Error ErrInternal = ''internal error''"
| "Error ErrUnsupportedOperation = ''unsupported operation''"
| "Error (NetErr s) = s"
| "Error (Errorf pre e) = pre @ Error e"

text \<open>\<^verbatim>\<open>errors.Is\<close>: the target is the error itself or is reached by unwrapping.\<close>

fun errors_Is :: "error \<Rightarrow> error \<Rightarrow> bool" where
  "errors_Is (Errorf pre e) target = (Errorf pre e = target \<or> errors_Is e target)"
| "errors_Is e target = (e = target)"

section \<open>Messages and requests\<close>

type_synonym routeOperation = string

definition undefinedRouteOperation :: routeOperation where
  "undefinedRouteOperation = ''''"

definition bindRouteOperation :: routeOperation where
  "bindRouteOperation = ''bind''"

definition searchRouteOperation :: routeOperation where
  "searchRouteOperation = ''search''"

definition extendedRouteOperation :: routeOperation where
  "extendedRouteOperation = ''extendedOperation''"

definition modifyRouteOperation :: routeOperation where
  "modifyRouteOperation = ''modify''"

definition addRouteOperation :: routeOperation where
  "addRouteOperation = ''add''"

definition defaultRouteOperation :: routeOperation where
  "defaultRouteOperation = ''noRoute''"

type_synonym Scope = int
type_synonym AuthChoice = string
type_synonym ExtendedOperationName = string

text \<open>
  The message structs are declared outside the files at hand.  Each carries the
  LDAP message id, read by \<^verbatim>\<open>GetID\<close>; beyond it the model keeps the fields the code
  reads.  Nothing reads a field of a modify or an add message, so both are a bare
  \<open>baseMessage\<close>.  The interface value \<^verbatim>\<open>Message\<close> is the tagged union of the five
  pointer types the type assertions distinguish.
\<close>

record baseMessage =
  msgID :: int

record SimpleBindMessage = baseMessage +
  AuthChoice :: AuthChoice

record SearchMessage = baseMessage +
  BaseDN :: string
  Scope :: Scope
  Filter :: string

record ExtendedOperationMessage = baseMessage +
  Name :: ExtendedOperationName

datatype Message =
    MsgSimpleBind SimpleBindMessage
  | MsgSearch SearchMessage
  | MsgExtendedOperation ExtendedOperationMessage
  | MsgModify baseMessage
  | MsgAdd baseMessage

fun GetID :: "Message \<Rightarrow> int" where
  "GetID (MsgSimpleBind m) = msgID m"
| "GetID (MsgSearch m) = msgID m"
| "GetID (MsgExtendedOperation m) = msgID m"
| "GetID (MsgModify m) = msgID m"
| "GetID (MsgAdd m) = msgID m"

text \<open>A connection is known here by its number only.\<close>

datatype Conn = Conn nat

section \<open>Routes\<close>

text \<open>
  A handler is a function value; the model names it by a number.  The route
  structs embed a \<open>baseRoute\<close>, which is record extension; an add or a modify
  route has no field of its own.
\<close>

type_synonym HandlerFunc = nat

record baseRoute =
  h :: HandlerFunc
  routeOp :: routeOperation
  label :: string

record searchRoute = baseRoute +
  basedn :: string
  filter_r :: string
  scope :: Scope

record simpleBindRoute = baseRoute +
  authChoice :: AuthChoice

record extendedRoute = baseRoute +
  extendedName :: ExtendedOperationName

type_synonym modifyRoute = baseRoute
type_synonym addRoute = baseRoute

text \<open>
  A request.  \<open>conn\<close> is a pointer and \<open>message\<close> an interface value: both may be
  nil, which is \<open>None\<close>.  A nil \<^verbatim>\<open>*Request\<close> is \<open>None\<close> at type \<open>Request option\<close>.
\<close>

record Request =
  ID :: int
  conn :: "Conn option"
  message :: "Message option"
  routeOp :: routeOperation
  extendedName :: ExtendedOperationName

definition handler :: "'a baseRoute_scheme \<Rightarrow> HandlerFunc" where
  "handler r = baseRoute.h r"

definition op :: "'a baseRoute_scheme \<Rightarrow> routeOperation" where
  "op r = baseRoute.routeOp r"

definition baseRoute_match :: "baseRoute \<Rightarrow> Request option \<Rightarrow> bool" where
  "baseRoute_match r req = False"

definition addRoute_match :: "addRoute \<Rightarrow> Request option \<Rightarrow> bool" where
  "addRoute_match r req =
     (case req of
        None \<Rightarrow> False
      | Some q \<Rightarrow>
          if op r \<noteq> Request.routeOp q then False
          else (case Request.message q of
                  Some (MsgAdd m) \<Rightarrow> True
                | _ \<Rightarrow> False))"

definition modifyRoute_match :: "modifyRoute \<Rightarrow> Request option \<Rightarrow> bool" where
  "modifyRoute_match r req =
     (case req of
        None \<Rightarrow> False
      | Some q \<Rightarrow>
          if op r \<noteq> Request.routeOp q then False
          else (case Request.message q of
                  Some (MsgModify m) \<Rightarrow> True
                | _ \<Rightarrow> False))"

definition simpleBindRoute_match :: "simpleBindRoute \<Rightarrow> Request option \<Rightarrow> bool" where
  "simpleBindRoute_match r req =
     (case req of
        None \<Rightarrow> False
      | Some q \<Rightarrow>
          if op r \<noteq> Request.routeOp q then False
          else (case Request.message q of
                  Some (MsgSimpleBind m) \<Rightarrow>
                    if authChoice r \<noteq> [] \<and> authChoice r = AuthChoice m then True else False
                | _ \<Rightarrow> False))"

definition extendedRoute_match :: "extendedRoute \<Rightarrow> Request option \<Rightarrow> bool" where
  "extendedRoute_match r req =
     (case req of
        None \<Rightarrow> False
      | Some q \<Rightarrow>
          if op r \<noteq> Request.routeOp q then False
          else if extendedRoute.extendedName r \<noteq> Request.extendedName q then False
          else (case Request.message q of
                  Some (MsgExtendedOperation m) \<Rightarrow> True
                | _ \<Rightarrow> False))"

definition searchRoute_match :: "searchRoute \<Rightarrow> Request option \<Rightarrow> bool" where
  "searchRoute_match r req =
     (case req of
        None \<Rightarrow> False
      | Some q \<Rightarrow>
          if op r \<noteq> Request.routeOp q then False
          else (case Request.message q of
                  Some (MsgSearch searchMsg) \<Rightarrow>
                    if basedn r \<noteq> []
                       \<and> strings_ToLower (BaseDN searchMsg) \<noteq> strings_ToLower (basedn r)
                    then False
                    else if filter_r r \<noteq> []
                       \<and> strings_ToLower (Filter searchMsg) \<noteq> strings_ToLower (filter_r r)
                    then False
                    else if scope r \<noteq> 0 \<and> Scope searchMsg \<noteq> scope r then False
                    else True
                | _ \<Rightarrow> False))"

text \<open>The interface \<^verbatim>\<open>route\<close>: one \<^verbatim>\<open>match\<close> per implementing type.\<close>

datatype route =
    RouteBase baseRoute
  | RouteAdd addRoute
  | RouteModify modifyRoute
  | RouteSimpleBind simpleBindRoute
  | RouteExtended extendedRoute
  | RouteSearch searchRoute

fun match :: "route \<Rightarrow> Request option \<Rightarrow> bool" where
  "match (RouteBase r) req = baseRoute_match r req"
| "match (RouteAdd r) req = addRoute_match r req"
| "match (RouteModify r) req = modifyRoute_match r req"
| "match (RouteSimpleBind r) req = simpleBindRoute_match r req"
| "match (RouteExtended r) req = extendedRoute_match r req"
| "match (RouteSearch r) req = searchRoute_match r req"

section \<open>Building a request from a packet\<close>

text \<open>
  Modelled from the spec: \<^verbatim>\<open>NewMessage\<close> and the BER packet are declared outside
  the files at hand.  A packet is represented by its message id, the application
  tag of its protocolOp and the fields a decoder extracts from the payload.  The
  decoder dispatches on the tag: 0 is a simple bind, 3 a search, 6 a modify, 8 an
  add, 23 an extended operation (with its OID); any other tag is an unsupported
  operation.
\<close>

record packet =
  pkt_messageID :: int
  pkt_appTag :: nat
  pkt_authChoice :: AuthChoice
  pkt_baseDN :: string
  pkt_scope :: Scope
  pkt_filter :: string
  pkt_name :: ExtendedOperationName

definition NewMessage :: "packet \<Rightarrow> error + Message" where
  "NewMessage p =
     (if pkt_appTag p = 0 then
        Inr (MsgSimpleBind \<lparr>msgID = pkt_messageID p, AuthChoice = pkt_authChoice p\<rparr>)
      else if pkt_appTag p = 3 then
        Inr (MsgSearch \<lparr>msgID = pkt_messageID p, BaseDN = pkt_baseDN p,
                        Scope = pkt_scope p, Filter = pkt_filter p\<rparr>)
      else if pkt_appTag p = 6 then Inr (MsgModify \<lparr>msgID = pkt_messageID p\<rparr>)
      else if pkt_appTag p = 8 then Inr (MsgAdd \<lparr>msgID = pkt_messageID p\<rparr>)
      else if pkt_appTag p = 23 then
        Inr (MsgExtendedOperation \<lparr>msgID = pkt_messageID p, Name = pkt_name p\<rparr>)
      else Inl ErrUnsupportedOperation)"

text \<open>
  \<^verbatim>\<open>newRequest\<close>.  The file names the tags \<^verbatim>\<open>BindRoute\<close>, \<^verbatim>\<open>SearchRoute\<close> and
  \<^verbatim>\<open>ExtendedOperationRoute\<close>; they are the bind, search and extended tags the
  routes compare against.  The type switch has three cases and a default.
\<close>

definition newRequest :: "int \<Rightarrow> Conn option \<Rightarrow> packet option \<Rightarrow> error + Request" where
  "newRequest i c p =
     (case c of
        None \<Rightarrow> Inl (Errorf ''gldap.newRequest: missing connection: '' ErrInvalidParameter)
      | Some c' \<Rightarrow>
     (case p of
        None \<Rightarrow> Inl (Errorf ''gldap.newRequest: missing ber packet: '' ErrInvalidParameter)
      | Some p' \<Rightarrow>
     (case NewMessage p' of
        Inl err \<Rightarrow>
          Inl (Errorf ''gldap.newRequest: unable to build message for request %d: '' err)
      | Inr m \<Rightarrow>
     (case m of
        MsgSimpleBind v \<Rightarrow>
          Inr \<lparr>ID = i, conn = Some c', message = Some m,
               routeOp = bindRouteOperation, extendedName = []\<rparr>
      | MsgSearch v \<Rightarrow>
          Inr \<lparr>ID = i, conn = Some c', message = Some m,
               routeOp = searchRouteOperation, extendedName = []\<rparr>
      | MsgExtendedOperation v \<Rightarrow>
          Inr \<lparr>ID = i, conn = Some c', message = Some m,
               routeOp = extendedRouteOperation, extendedName = Name v\<rparr>
      | _ \<Rightarrow>
          Inl (Errorf ''gldap.newRequest: %v is an unsupported route operation: ''
                 ErrInternal)))))"

section \<open>Response options and responses\<close>

text \<open>
  Go's \<^verbatim>\<open>int\<close> is a 64-bit word and \<^verbatim>\<open>int16\<close> a 16-bit one; the conversion
  \<^verbatim>\<open>int16(x)\<close> keeps the low 16 bits.  A nil \<^verbatim>\<open>*int\<close> is \<open>None\<close>.  The attribute
  map is an association list, in the order the runtime happens to iterate it; the
  nil map is the empty list.
\<close>

record responseOptions =
  withDiagnosticMessage :: string
  withMatchedDN :: string
  withResponseCode :: "64 word option"
  withApplicationCode :: "64 word option"
  withAttributes :: "(string \<times> string list) list"

definition responseDefaults :: responseOptions where
  "responseDefaults =
     \<lparr>withDiagnosticMessage = ''Unused'', withMatchedDN = ''Unused'',
      withResponseCode = None, withApplicationCode = None, withAttributes = []\<rparr>"

text \<open>
  An \<^verbatim>\<open>Option\<close> is a function on an options struct of any kind.  The five built
  here act on a \<open>responseOptions\<close>; \<open>OtherOption\<close> stands for an option made for
  another options struct, whose type assertion fails, so that it changes nothing.
\<close>

datatype Option =
    WithDiagnosticMessage string
  | WithMatchedDN string
  | WithResponseCode "64 word"
  | WithApplicationCode "64 word"
  | WithAttributes "(string \<times> string list) list"
  | OtherOption

fun apply_Option :: "Option \<Rightarrow> responseOptions \<Rightarrow> responseOptions" where
  "apply_Option (WithDiagnosticMessage msg) o' = o'\<lparr>withDiagnosticMessage := msg\<rparr>"
| "apply_Option (WithMatchedDN dn) o' = o'\<lparr>withMatchedDN := dn\<rparr>"
| "apply_Option (WithResponseCode c) o' = o'\<lparr>withResponseCode := Some c\<rparr>"
| "apply_Option (WithApplicationCode c) o' = o'\<lparr>withApplicationCode := Some c\<rparr>"
| "apply_Option (WithAttributes attributes) o' = o'\<lparr>withAttributes := attributes\<rparr>"
| "apply_Option OtherOption o' = o'"

text \<open>
  Modelled from the spec: \<^verbatim>\<open>applyOpts\<close> is declared outside the files at hand; it
  calls each option on the options struct, in the order given.
\<close>

fun applyOpts :: "responseOptions \<Rightarrow> Option list \<Rightarrow> responseOptions" where
  "applyOpts opts [] = opts"
| "applyOpts opts (x # xs) = applyOpts (apply_Option x opts) xs"

definition getResponseOpts :: "Option list \<Rightarrow> responseOptions" where
  "getResponseOpts opt = applyOpts responseDefaults opt"

text \<open>
  The response structs are declared outside the files at hand; the constructors
  fix the fields of the embedded \<open>baseResponse\<close>.  A response that only embeds it
  is a \<open>baseResponse\<close>; a search entry adds the entry.  A field the struct literal
  leaves out has Go's zero value.
\<close>

record baseResponse =
  messageID :: int
  code :: "16 word"
  diagMessage :: string
  matchedDN :: string

type_synonym GeneralResponse = baseResponse
type_synonym ExtendedResponse = baseResponse
type_synonym BindResponse = baseResponse
type_synonym SearchResponseDone = baseResponse

record EntryAttribute =
  Name :: string
  Values :: "string list"

record Entry =
  DN :: string
  Attributes :: "EntryAttribute list"

record SearchResponseEntry = baseResponse +
  entry :: Entry

definition newEntryAttribute :: "string \<Rightarrow> string list \<Rightarrow> EntryAttribute" where
  "newEntryAttribute name values = \<lparr>Name = name, Values = values\<rparr>"

definition LDAPResultUnwillingToPerform :: "64 word" where
  "LDAPResultUnwillingToPerform = 53"

text \<open>
  Calling \<^verbatim>\<open>GetID\<close> on a nil interface value, or reading through a nil pointer,
  panics: the constructors return the panic as a value.
\<close>

datatype panic = NilDereference

definition message_GetID :: "Request \<Rightarrow> panic + int" where
  "message_GetID r = (case Request.message r of None \<Rightarrow> Inl NilDereference | Some m \<Rightarrow> Inr (GetID m))"

definition NewResponse :: "Request \<Rightarrow> Option list \<Rightarrow> panic + GeneralResponse" where
  "NewResponse r opt =
     (let opts = getResponseOpts opt;
          opts = (if withResponseCode opts = None
                  then opts\<lparr>withResponseCode := Some LDAPResultUnwillingToPerform\<rparr>
                  else opts)
      in case message_GetID r of
           Inl e \<Rightarrow> Inl e
         | Inr i \<Rightarrow>
             (case withResponseCode opts of
                None \<Rightarrow> Inl NilDereference
              | Some c \<Rightarrow>
                  Inr \<lparr>messageID = i, code = ucast c,
                       diagMessage = withDiagnosticMessage opts,
                       matchedDN = withMatchedDN opts\<rparr>))"

definition NewExtendedResponse :: "Request \<Rightarrow> Option list \<Rightarrow> panic + ExtendedResponse" where
  "NewExtendedResponse r opt =
     (let opts = getResponseOpts opt
      in case message_GetID r of
           Inl e \<Rightarrow> Inl e
         | Inr i \<Rightarrow>
             (let resp = \<lparr>messageID = i, code = 0, diagMessage = [], matchedDN = []\<rparr>
              in case withResponseCode opts of
                   None \<Rightarrow> Inr resp
                 | Some c \<Rightarrow> Inr (resp\<lparr>code := ucast c\<rparr>)))"

definition NewBindResponse :: "Request \<Rightarrow> Option list \<Rightarrow> panic + BindResponse" where
  "NewBindResponse r opt =
     (let opts = getResponseOpts opt
      in case message_GetID r of
           Inl e \<Rightarrow> Inl e
         | Inr i \<Rightarrow>
             (let resp = \<lparr>messageID = i, code = 0, diagMessage = [], matchedDN = []\<rparr>
              in case withResponseCode opts of
                   None \<Rightarrow> Inr resp
                 | Some c \<Rightarrow> Inr (resp\<lparr>code := ucast c\<rparr>)))"

definition NewSearchDoneResponse :: "Request \<Rightarrow> Option list \<Rightarrow> panic + SearchResponseDone" where
  "NewSearchDoneResponse r opt =
     (let opts = getResponseOpts opt
      in case message_GetID r of
           Inl e \<Rightarrow> Inl e
         | Inr i \<Rightarrow>
             (let resp = \<lparr>messageID = i, code = 0, diagMessage = [], matchedDN = []\<rparr>
              in case withResponseCode opts of
                   None \<Rightarrow> Inr resp
                 | Some c \<Rightarrow> Inr (resp\<lparr>code := ucast c\<rparr>)))"

definition NewSearchResponseEntry ::
  "Request \<Rightarrow> string \<Rightarrow> Option list \<Rightarrow> panic + SearchResponseEntry" where
  "NewSearchResponseEntry r entryDN opt =
     (let opts = getResponseOpts opt;
          newAttrs = map (\<lambda>(name, values). newEntryAttribute name values) (withAttributes opts)
      in case message_GetID r of
           Inl e \<Rightarrow> Inl e
         | Inr i \<Rightarrow>
             Inr \<lparr>messageID = i, code = 0, diagMessage = [], matchedDN = [],
                  entry = \<lparr>DN = entryDN, Attributes = newAttrs\<rparr>\<rparr>)"

section \<open>The server\<close>

text \<open>
  A \<^verbatim>\<open>net.Listener\<close> belongs to the Go standard library.  The model keeps what
  \<^verbatim>\<open>Close\<close> depends on: the address, whether the listener has been closed already,
  and an error the operating system would report on closing it.  Closing a closed
  listener reports the standard library's error, whose text ends in
  \<^verbatim>\<open>use of closed network connection\<close>.
\<close>

record Listener =
  addr :: string
  closed :: bool
  closeFault :: "string option"

definition Listener_Close :: "Listener \<Rightarrow> error option \<times> Listener" where
  "Listener_Close l =
     (if closed l then
        (Some (NetErr (''close tcp '' @ addr l @ '': use of closed network connection'')), l)
      else (case closeFault l of
              Some e \<Rightarrow> (Some (NetErr e), l)
            | None \<Rightarrow> (None, l\<lparr>closed := True\<rparr>)))"

text \<open>
  Modelled from the spec: the \<^verbatim>\<open>Mux\<close> is declared outside the files at hand; it is
  a list of routes in registration order and a slot for the default route.
\<close>

record Mux =
  routes :: "route list"
  defaultRoute :: "route option"

text \<open>
  A context is known by a number and by whether it has been cancelled; a cancel
  function is known by the number of the context it cancels.
\<close>

record Context =
  ctxID :: nat
  ctxDone :: bool

text \<open>
  The server.  The logger, the lock, the TLS configuration and the on-close
  handler play no part in what \<^verbatim>\<open>Stop\<close> and \<^verbatim>\<open>Router\<close> return and are left out.
  \<open>connWg\<close> is the counter of the wait group: the number of connection workers
  that have not finished.
\<close>

record Server =
  connWg :: nat
  listener :: "Listener option"
  listenerReady :: bool
  router :: "Mux option"
  readTimeout :: int
  writeTimeout :: int
  disablePanicRecovery :: bool
  shutdownCancel :: "nat option"
  shutdownCtx :: Context

text \<open>
  \<^verbatim>\<open>getConfigOpts\<close> is declared outside the files at hand; \<open>NewServer\<close> takes the
  options struct it returns.  \<open>NewServer\<close> always returns a nil error, so the model
  returns the server alone.  The fresh context has number 0.
\<close>

record configOptions =
  withReadTimeout :: int
  withWriteTimeout :: int
  withDisablePanicRecovery :: bool

definition NewServer :: "configOptions \<Rightarrow> Server" where
  "NewServer opts =
     \<lparr>connWg = 0,
      listener = None,
      listenerReady = False,
      router = Some \<lparr>routes = [], defaultRoute = None\<rparr>,
      readTimeout = withReadTimeout opts,
      writeTimeout = withWriteTimeout opts,
      disablePanicRecovery = withDisablePanicRecovery opts,
      shutdownCancel = Some 0,
      shutdownCtx = \<lparr>ctxID = 0, ctxDone = False\<rparr>\<rparr>"

definition Ready :: "Server \<Rightarrow> bool" where
  "Ready s = listenerReady s"

text \<open>Calling the cancel function of context \<open>k\<close>: the server's own context is done if it is that one.\<close>

definition call_cancel :: "nat \<Rightarrow> Server \<Rightarrow> Server" where
  "call_cancel k s =
     (if ctxID (shutdownCtx s) = k then s\<lparr>shutdownCtx := (shutdownCtx s)\<lparr>ctxDone := True\<rparr>\<rparr> else s)"

text \<open>
  \<^verbatim>\<open>Stop\<close>, as one sequential run.  The result is \<open>None\<close> when the call does not
  return: \<^verbatim>\<open>connWg.Wait()\<close> blocks while the counter is above zero, and in a
  sequential run nobody lowers it.  Otherwise the result is the error returned
  (\<open>None\<close> for nil) and the server afterwards.
\<close>

definition Stop_listener :: "Server \<Rightarrow> (error \<times> Server) + Server" where
  "Stop_listener s =
     (case listener s of
        None \<Rightarrow> Inr s
      | Some l \<Rightarrow>
          (case Listener_Close l of
             (None, l') \<Rightarrow> Inr (s\<lparr>listener := Some l'\<rparr>)
           | (Some err, l') \<Rightarrow>
               if \<not> strings_Contains (Error err) ''use of closed network connection''
               then Inl (Errorf ''gldap.(Server).Stop: '' err, s\<lparr>listener := Some l'\<rparr>)
               else Inr (s\<lparr>listener := Some l'\<rparr>)))"

definition Stop :: "Server \<Rightarrow> (error option \<times> Server) option" where
  "Stop s =
     (if listener s = None \<and> shutdownCancel s = None then Some (None, s)
      else (case Stop_listener s of
              Inl (e, s1) \<Rightarrow> Some (Some e, s1)
            | Inr s1 \<Rightarrow>
                (let s2 = (case shutdownCancel s1 of
                             None \<Rightarrow> s1
                           | Some k \<Rightarrow> call_cancel k s1)
                 in if connWg s2 = 0 then Some (None, s2) else None)))"

definition Router :: "Server \<Rightarrow> Mux option \<Rightarrow> error option \<times> Server" where
  "Router s r =
     (case r of
        None \<Rightarrow>
          (Some (Errorf ''gldap.(Server).HandleRoutes: missing router: '' ErrInvalidParameter), s)
      | Some m \<Rightarrow> (None, s\<lparr>router := Some m\<rparr>))"

section \<open>The specification's reading of a search route\<close>

text \<open>
  The matching rule of a search route in the specification's words: the request
  is there, the tags agree, the message is a search message, and each predicate is
  empty (scope: 0) or agrees with the message, the two strings under the
  ASCII-case-insensitive comparison.  This definition follows the specification,
  not the code; it is what \<open>searchRoute_match\<close> is compared with.
\<close>

definition searchRoute_match_claimed :: "searchRoute \<Rightarrow> Request option \<Rightarrow> bool" where
  "searchRoute_match_claimed r req =
     (case req of
        None \<Rightarrow> False
      | Some q \<Rightarrow>
          Request.routeOp q = op r \<and>
          (case Request.message q of
             Some (MsgSearch m) \<Rightarrow>
               (basedn r = [] \<or> ascii_case_insensitive_eq (BaseDN m) (basedn r)) \<and>
               (filter_r r = [] \<or> ascii_case_insensitive_eq (Filter m) (filter_r r)) \<and>
               (scope r = 0 \<or> Scope m = scope r)
           | _ \<Rightarrow> False))"

section \<open>Route matching: results\<close>

lemma strings_ToLower_ascii:
  "isASCII a \<Longrightarrow> isASCII b \<Longrightarrow>
   (strings_ToLower a = strings_ToLower b) = ascii_case_insensitive_eq a b"
  by (simp add: strings_ToLower_def ascii_case_insensitive_eq_def)

lemma match_nil: "match r None = False"
  by (cases r)
     (simp_all add: baseRoute_match_def addRoute_match_def modifyRoute_match_def
        simpleBindRoute_match_def extendedRoute_match_def searchRoute_match_def)

text \<open>
  \<open>strings_ToLower\<close> at work beyond ASCII: Cyrillic U+0414 goes to U+0434, the
  Kelvin sign U+212A to the letter k, U+0130 to the letter i, Adlam U+1E900 to
  U+1E922; the invalid byte FF and each byte of the cut-short sequence E2 82 come
  out as U+FFFD; a lower-case string stays.
\<close>

lemma strings_ToLower_examples:
  "strings_ToLower [CHR 0xD0, CHR 0x94] = [CHR 0xD0, CHR 0xB4]"
  "strings_ToLower [CHR 0xE2, CHR 0x84, CHR 0xAA] = ''k''"
  "strings_ToLower [CHR 0xC4, CHR 0xB0] = ''i''"
  "strings_ToLower [CHR 0xF0, CHR 0x9E, CHR 0xA4, CHR 0x80] = [CHR 0xF0, CHR 0x9E, CHR 0xA4, CHR 0xA2]"
  "strings_ToLower [CHR 0xFF] = [CHR 0xEF, CHR 0xBF, CHR 0xBD]"
  "strings_ToLower [CHR 0xE2, CHR 0x82] = [CHR 0xEF, CHR 0xBF, CHR 0xBD, CHR 0xEF, CHR 0xBF, CHR 0xBD]"
  "strings_ToLower [CHR 0x6F, CHR 0x75, CHR 0x3D, CHR 0xD0, CHR 0xB4] = [CHR 0x6F, CHR 0x75, CHR 0x3D, CHR 0xD0, CHR 0xB4]"
  by code_simp+

text \<open>
  So a search route with baseDN \<^verbatim>\<open>ou=\<close> and Cyrillic U+0434 matches a search for
  \<^verbatim>\<open>ou=\<close> and U+0414, and a route with filter \<^verbatim>\<open>k\<close> a search whose filter is the
  Kelvin sign.
\<close>

lemma searchRoute_match_unicode_examples:
  "searchRoute_match
     \<lparr>h = 0, routeOp = searchRouteOperation, label = [],
      basedn = [CHR 0x6F, CHR 0x75, CHR 0x3D, CHR 0xD0, CHR 0xB4], filter_r = [], scope = 0\<rparr>
     (Some \<lparr>ID = 1, conn = Some (Conn 1),
        message = Some (MsgSearch \<lparr>msgID = 1,
                    BaseDN = [CHR 0x6F, CHR 0x75, CHR 0x3D, CHR 0xD0, CHR 0x94], Scope = 2,
                    Filter = ''(cn=a)''\<rparr>),
        routeOp = searchRouteOperation, extendedName = []\<rparr>)"
  "searchRoute_match
     \<lparr>h = 0, routeOp = searchRouteOperation, label = [],
      basedn = [], filter_r = ''k'', scope = 0\<rparr>
     (Some \<lparr>ID = 1, conn = Some (Conn 1),
        message = Some (MsgSearch \<lparr>msgID = 1, BaseDN = [], Scope = 2,
                    Filter = [CHR 0xE2, CHR 0x84, CHR 0xAA]\<rparr>),
        routeOp = searchRouteOperation, extendedName = []\<rparr>)"
  by code_simp+

text \<open>
  The add, modify and extended routes: each matches exactly when the request is
  not nil, the tags agree and the message is of the route's kind; the extended
  route also wants its OID to be the request's.
\<close>

lemma addRoute_match_iff:
  "addRoute_match r req \<longleftrightarrow>
     (\<exists>q m. req = Some q \<and> Request.routeOp q = op r \<and> Request.message q = Some (MsgAdd m))"
  by (auto simp: addRoute_match_def split: option.splits Message.splits)

lemma modifyRoute_match_iff:
  "modifyRoute_match r req \<longleftrightarrow>
     (\<exists>q m. req = Some q \<and> Request.routeOp q = op r \<and> Request.message q = Some (MsgModify m))"
  by (auto simp: modifyRoute_match_def split: option.splits Message.splits)

lemma extendedRoute_match_iff:
  "extendedRoute_match r req \<longleftrightarrow>
     (\<exists>q m. req = Some q \<and> Request.routeOp q = op r
        \<and> Request.extendedName q = extendedRoute.extendedName r
        \<and> Request.message q = Some (MsgExtendedOperation m))"
  by (auto simp: extendedRoute_match_def split: option.splits Message.splits)

text \<open>
  Claim C1, as the code has it.  A search route matches a request exactly when
  the request is not nil, its tag is the route's tag, its message is a search
  message, the route's baseDN is empty or equal to the message's BaseDN after
  \<^verbatim>\<open>strings.ToLower\<close> of both, the route's filter is empty or equal to the
  message's Filter after \<^verbatim>\<open>strings.ToLower\<close> of both, and the route's scope is 0
  or the message's Scope.  \<^verbatim>\<open>strings.ToLower\<close> folds every Unicode letter and
  rewrites invalid bytes.  Where the four strings are ASCII this is the
  specification's reading, with the ASCII-case-insensitive comparison.
\<close>

theorem searchRoute_match_iff:
  "(searchRoute_match r req \<longleftrightarrow>
      (\<exists>q m. req = Some q \<and> Request.routeOp q = op r
         \<and> Request.message q = Some (MsgSearch m)
         \<and> (basedn r = [] \<or> strings_ToLower (BaseDN m) = strings_ToLower (basedn r))
         \<and> (filter_r r = [] \<or> strings_ToLower (Filter m) = strings_ToLower (filter_r r))
         \<and> (scope r = 0 \<or> Scope m = scope r)))
   \<and> (isASCII (basedn r) \<and> isASCII (filter_r r)
        \<and> (\<forall>q m. req = Some q \<and> Request.message q = Some (MsgSearch m)
               \<longrightarrow> isASCII (BaseDN m) \<and> isASCII (Filter m))
       \<longrightarrow> searchRoute_match r req = searchRoute_match_claimed r req)"
proof (intro conjI impI)
  show "searchRoute_match r req \<longleftrightarrow>
      (\<exists>q m. req = Some q \<and> Request.routeOp q = op r
         \<and> Request.message q = Some (MsgSearch m)
         \<and> (basedn r = [] \<or> strings_ToLower (BaseDN m) = strings_ToLower (basedn r))
         \<and> (filter_r r = [] \<or> strings_ToLower (Filter m) = strings_ToLower (filter_r r))
         \<and> (scope r = 0 \<or> Scope m = scope r))"
    by (auto simp: searchRoute_match_def split: option.splits Message.splits)
next
  assume a: "isASCII (basedn r) \<and> isASCII (filter_r r)
        \<and> (\<forall>q m. req = Some q \<and> Request.message q = Some (MsgSearch m)
               \<longrightarrow> isASCII (BaseDN m) \<and> isASCII (Filter m))"
  show "searchRoute_match r req = searchRoute_match_claimed r req"
  proof (cases req)
    case None
    then show ?thesis by (simp add: searchRoute_match_def searchRoute_match_claimed_def)
  next
    case (Some q)
    show ?thesis
    proof (cases "Request.message q")
      case None
      with Some show ?thesis
        by (simp add: searchRoute_match_def searchRoute_match_claimed_def)
    next
      case (Some msg)
      show ?thesis
      proof (cases msg)
        case (MsgSearch m)
        with a \<open>req = Some q\<close> \<open>Request.message q = Some msg\<close>
        have "isASCII (BaseDN m)" "isASCII (Filter m)" "isASCII (basedn r)" "isASCII (filter_r r)"
          by simp_all
        then have "(strings_ToLower (BaseDN m) = strings_ToLower (basedn r))
                     = ascii_case_insensitive_eq (BaseDN m) (basedn r)"
          and "(strings_ToLower (Filter m) = strings_ToLower (filter_r r))
                     = ascii_case_insensitive_eq (Filter m) (filter_r r)"
          by (simp_all add: strings_ToLower_ascii)
        with MsgSearch \<open>req = Some q\<close> \<open>Request.message q = Some msg\<close> show ?thesis
          by (auto simp: searchRoute_match_def searchRoute_match_claimed_def)
      qed (use \<open>req = Some q\<close> \<open>Request.message q = Some msg\<close> in
            \<open>simp_all add: searchRoute_match_def searchRoute_match_claimed_def\<close>)
    qed
  qed
qed

text \<open>
  Witness for C1: the route with baseDN \<^verbatim>\<open>dc=example,dc=org\<close> and a search of
  \<^verbatim>\<open>DC=Example,DC=Org\<close>, all strings ASCII; the route matches, by either reading.
\<close>

theorem searchRoute_match_iff_witness:
  "searchRoute_match
     \<lparr>h = 0, routeOp = searchRouteOperation, label = [],
      basedn = ''dc=example,dc=org'', filter_r = [], scope = 0\<rparr>
     (Some \<lparr>ID = 1, conn = Some (Conn 1),
        message = Some (MsgSearch \<lparr>msgID = 1, BaseDN = ''DC=Example,DC=Org'', Scope = 2,
                                   Filter = ''(objectClass=*)''\<rparr>),
        routeOp = searchRouteOperation, extendedName = []\<rparr>)
   \<and> searchRoute_match_claimed
     \<lparr>h = 0, routeOp = searchRouteOperation, label = [],
      basedn = ''dc=example,dc=org'', filter_r = [], scope = 0\<rparr>
     (Some \<lparr>ID = 1, conn = Some (Conn 1),
        message = Some (MsgSearch \<lparr>msgID = 1, BaseDN = ''DC=Example,DC=Org'', Scope = 2,
                                   Filter = ''(objectClass=*)''\<rparr>),
        routeOp = searchRouteOperation, extendedName = []\<rparr>)"
proof -
  let ?r = "\<lparr>h = 0, routeOp = searchRouteOperation, label = [],
      basedn = ''dc=example,dc=org'', filter_r = [], scope = 0\<rparr>"
  let ?m = "\<lparr>msgID = 1, BaseDN = ''DC=Example,DC=Org'', Scope = 2,
                                   Filter = ''(objectClass=*)''\<rparr>"
  let ?q = "\<lparr>ID = 1, conn = Some (Conn 1), message = Some (MsgSearch ?m),
        routeOp = searchRouteOperation, extendedName = []\<rparr>"
  have l: "strings_ToLower ''DC=Example,DC=Org'' = strings_ToLower ''dc=example,dc=org''"
    by code_simp
  have a1: "isASCII (basedn ?r)" "isASCII (filter_r ?r)" "isASCII (BaseDN ?m)" "isASCII (Filter ?m)"
    by (simp_all add: isASCII_def)
  have m: "searchRoute_match ?r (Some ?q)"
    using searchRoute_match_iff [of ?r "Some ?q", THEN conjunct1] l
    by (simp add: op_def)
  have "searchRoute_match ?r (Some ?q) = searchRoute_match_claimed ?r (Some ?q)"
    using searchRoute_match_iff [of ?r "Some ?q", THEN conjunct2] a1 by simp
  with m show ?thesis by simp
qed

text \<open>
  Counterexample to C1 as stated: a route with baseDN \<^verbatim>\<open>U+00E9\<close> (bytes C3 A9) and a
  search whose BaseDN is \<^verbatim>\<open>U+00C9\<close> (bytes C3 89).  \<^verbatim>\<open>strings.ToLower\<close> sends both
  to C3 A9, so the route matches; the two strings differ under the
  ASCII-case-insensitive comparison.
\<close>

theorem searchRoute_match_ascii_counterexample:
  "searchRoute_match
     \<lparr>h = 0, routeOp = searchRouteOperation, label = [],
      basedn = [CHR 0xC3, CHR 0xA9], filter_r = [], scope = 0\<rparr>
     (Some \<lparr>ID = 1, conn = Some (Conn 1),
        message = Some (MsgSearch \<lparr>msgID = 1, BaseDN = [CHR 0xC3, CHR 0x89], Scope = 2,
                                   Filter = ''(cn=a)''\<rparr>),
        routeOp = searchRouteOperation, extendedName = []\<rparr>)
   \<and> \<not> searchRoute_match_claimed
     \<lparr>h = 0, routeOp = searchRouteOperation, label = [],
      basedn = [CHR 0xC3, CHR 0xA9], filter_r = [], scope = 0\<rparr>
     (Some \<lparr>ID = 1, conn = Some (Conn 1),
        message = Some (MsgSearch \<lparr>msgID = 1, BaseDN = [CHR 0xC3, CHR 0x89], Scope = 2,
                                   Filter = ''(cn=a)''\<rparr>),
        routeOp = searchRouteOperation, extendedName = []\<rparr>)"
  by code_simp

text \<open>
  Claim C5, as the code has it.  A search route with a filter matches a request
  only when the request carries a search message whose Filter equals the route's
  filter after \<^verbatim>\<open>strings.ToLower\<close> of both: the comparison ignores case.
\<close>

theorem searchRoute_match_filter:
  assumes "searchRoute_match r req" and "filter_r r \<noteq> []"
  shows "\<exists>q m. req = Some q \<and> Request.message q = Some (MsgSearch m)
           \<and> strings_ToLower (Filter m) = strings_ToLower (filter_r r)"
  using assms
  by (auto simp: searchRoute_match_def split: option.splits Message.splits if_splits)

text \<open>
  Witness for C5, and at the same input the counterexample to C5 as stated: the
  route's filter is \<^verbatim>\<open>(CN=admin)\<close>, the request's \<^verbatim>\<open>(cn=admin)\<close>.  The route matches
  though the two filters are not the same string.
\<close>

theorem searchRoute_match_filter_witness:
  "searchRoute_match
     \<lparr>h = 0, routeOp = searchRouteOperation, label = [],
      basedn = [], filter_r = ''(CN=admin)'', scope = 0\<rparr>
     (Some \<lparr>ID = 1, conn = Some (Conn 1),
        message = Some (MsgSearch \<lparr>msgID = 1, BaseDN = ''dc=example,dc=org'', Scope = 2,
                                   Filter = ''(cn=admin)''\<rparr>),
        routeOp = searchRouteOperation, extendedName = []\<rparr>)
   \<and> strings_ToLower ''(cn=admin)'' = strings_ToLower ''(CN=admin)''"
proof -
  let ?r = "\<lparr>h = 0, routeOp = searchRouteOperation, label = [],
      basedn = [], filter_r = ''(CN=admin)'', scope = 0\<rparr>"
  let ?q = "\<lparr>ID = 1, conn = Some (Conn 1),
        message = Some (MsgSearch \<lparr>msgID = 1, BaseDN = ''dc=example,dc=org'', Scope = 2,
                                   Filter = ''(cn=admin)''\<rparr>),
        routeOp = searchRouteOperation, extendedName = []\<rparr>"
  have m: "searchRoute_match ?r (Some ?q)" by code_simp
  have f: "filter_r ?r \<noteq> []" by simp
  from searchRoute_match_filter [OF m f] m show ?thesis by simp
qed

text \<open>
  Counterexample to C5 as stated: the route matches, and the request's filter is
  not literally the route's filter.
\<close>

theorem searchRoute_filter_literal_counterexample:
  "searchRoute_match
     \<lparr>h = 0, routeOp = searchRouteOperation, label = [],
      basedn = [], filter_r = ''(CN=admin)'', scope = 0\<rparr>
     (Some \<lparr>ID = 1, conn = Some (Conn 1),
        message = Some (MsgSearch \<lparr>msgID = 1, BaseDN = ''dc=example,dc=org'', Scope = 2,
                                   Filter = ''(cn=admin)''\<rparr>),
        routeOp = searchRouteOperation, extendedName = []\<rparr>)
   \<and> ''(cn=admin)'' \<noteq> ''(CN=admin)''"
  by code_simp

text \<open>
  Claim C6, as the code has it.  A simple-bind route matches a request exactly
  when the request is not nil, its tag is the route's tag, its message is a simple
  bind message, and the route's authChoice is not empty and equals the message's
  AuthChoice.  A route whose authChoice is empty therefore matches no request.
\<close>

theorem simpleBindRoute_match_iff:
  "simpleBindRoute_match r req \<longleftrightarrow>
     (\<exists>q m. req = Some q \<and> Request.routeOp q = op r
        \<and> Request.message q = Some (MsgSimpleBind m)
        \<and> authChoice r \<noteq> [] \<and> authChoice r = AuthChoice m)"
  by (auto simp: simpleBindRoute_match_def split: option.splits Message.splits)

text \<open>
  Counterexample to C6 as stated: a bind route with an empty authChoice does not
  match a bind request that carries a simple bind message.
\<close>

theorem simpleBindRoute_empty_authChoice_counterexample:
  "simpleBindRoute_match
     \<lparr>h = 0, routeOp = bindRouteOperation, label = [], authChoice = []\<rparr>
     (Some \<lparr>ID = 1, conn = Some (Conn 1),
        message = Some (MsgSimpleBind \<lparr>msgID = 1, AuthChoice = ''simple''\<rparr>),
        routeOp = bindRouteOperation, extendedName = []\<rparr>) = False"
  by (simp add: simpleBindRoute_match_def)

text \<open>
  Claim C10.  Each of the five match functions returns false on a nil request;
  the nil check is the first statement of each, so nothing is read through the nil
  pointer.
\<close>

theorem match_nil_request:
  "addRoute_match ra None = False
   \<and> modifyRoute_match rm None = False
   \<and> simpleBindRoute_match rb None = False
   \<and> extendedRoute_match re None = False
   \<and> searchRoute_match rs None = False"
  by (simp add: addRoute_match_def modifyRoute_match_def simpleBindRoute_match_def
        extendedRoute_match_def searchRoute_match_def)

section \<open>Requests and responses: results\<close>

lemma newRequest_routeOp:
  assumes "newRequest i c p = Inr r"
  shows "Request.routeOp r \<in> {bindRouteOperation, searchRouteOperation, extendedRouteOperation}"
  using assms
  by (auto simp: newRequest_def split: option.splits sum.splits Message.splits)

lemma newRequest_modify_add:
  assumes "pkt_appTag p = 6 \<or> pkt_appTag p = 8"
  shows "\<exists>e. newRequest i (Some c) (Some p) = Inl e \<and> errors_Is e ErrInternal"
  using assms by (auto simp: newRequest_def NewMessage_def)

text \<open>
  Claim C2 says that a packet with application tag 6 (modify) or 8 (add) yields a
  request tagged modify or add.  The type switch of \<open>newRequest\<close> has no case for
  either message: both fall to the default, and the call returns an error that
  wraps \<open>ErrInternal\<close>.  Here at a modify packet and at an add packet.
\<close>

theorem newRequest_modify_add_rejected:
  "newRequest 1 (Some (Conn 1))
     (Some \<lparr>pkt_messageID = 1, pkt_appTag = 6, pkt_authChoice = [], pkt_baseDN = [],
            pkt_scope = 0, pkt_filter = [], pkt_name = []\<rparr>)
     = Inl (Errorf ''gldap.newRequest: %v is an unsupported route operation: '' ErrInternal)
   \<and> newRequest 2 (Some (Conn 1))
     (Some \<lparr>pkt_messageID = 2, pkt_appTag = 8, pkt_authChoice = [], pkt_baseDN = [],
            pkt_scope = 0, pkt_filter = [], pkt_name = []\<rparr>)
     = Inl (Errorf ''gldap.newRequest: %v is an unsupported route operation: '' ErrInternal)"
  by (simp add: newRequest_def NewMessage_def)

lemma applyOpts_withResponseCode:
  "(\<forall>c. WithResponseCode c \<notin> set opt) \<Longrightarrow>
   withResponseCode (applyOpts o' opt) = withResponseCode o'"
proof (induction opt arbitrary: o')
  case Nil
  then show ?case by simp
next
  case (Cons x xs)
  then show ?case by (cases x) auto
qed

lemma applyOpts_withMatchedDN:
  "(\<forall>dn. WithMatchedDN dn \<notin> set opt) \<Longrightarrow>
   withMatchedDN (applyOpts o' opt) = withMatchedDN o'"
proof (induction opt arbitrary: o')
  case Nil
  then show ?case by simp
next
  case (Cons x xs)
  then show ?case by (cases x) auto
qed

lemma applyOpts_withDiagnosticMessage:
  "(\<forall>msg. WithDiagnosticMessage msg \<notin> set opt) \<Longrightarrow>
   withDiagnosticMessage (applyOpts o' opt) = withDiagnosticMessage o'"
proof (induction opt arbitrary: o')
  case Nil
  then show ?case by simp
next
  case (Cons x xs)
  then show ?case by (cases x) auto
qed

text \<open>
  Claim C7, as the code has it.  For a request with a message, \<open>NewResponse\<close>
  returns a response; its code is 53 when no \<open>WithResponseCode\<close> is among the
  options, its matchedDN is \<^verbatim>\<open>Unused\<close> when no \<open>WithMatchedDN\<close> is, and its
  diagnostic message is \<^verbatim>\<open>Unused\<close> when no \<open>WithDiagnosticMessage\<close> is.  The other
  four constructors copy neither option into the response: whatever the options,
  the matchedDN and the diagnostic message of their responses are empty.
\<close>

theorem NewResponse_defaults:
  assumes "Request.message r = Some m"
  shows "(\<exists>resp. NewResponse r opt = Inr resp
       \<and> ((\<forall>c. WithResponseCode c \<notin> set opt) \<longrightarrow> code resp = 53)
       \<and> ((\<forall>dn. WithMatchedDN dn \<notin> set opt) \<longrightarrow> matchedDN resp = ''Unused'')
       \<and> ((\<forall>msg. WithDiagnosticMessage msg \<notin> set opt) \<longrightarrow> diagMessage resp = ''Unused''))
     \<and> (\<exists>resp. NewBindResponse r opt = Inr resp
           \<and> matchedDN resp = [] \<and> diagMessage resp = [])
     \<and> (\<exists>resp. NewExtendedResponse r opt = Inr resp
           \<and> matchedDN resp = [] \<and> diagMessage resp = [])
     \<and> (\<exists>resp. NewSearchDoneResponse r opt = Inr resp
           \<and> matchedDN resp = [] \<and> diagMessage resp = [])
     \<and> (\<exists>resp. NewSearchResponseEntry r entryDN opt = Inr resp
           \<and> matchedDN resp = [] \<and> diagMessage resp = [])"
proof (intro conjI)
  show "\<exists>resp. NewResponse r opt = Inr resp
       \<and> ((\<forall>c. WithResponseCode c \<notin> set opt) \<longrightarrow> code resp = 53)
       \<and> ((\<forall>dn. WithMatchedDN dn \<notin> set opt) \<longrightarrow> matchedDN resp = ''Unused'')
       \<and> ((\<forall>msg. WithDiagnosticMessage msg \<notin> set opt) \<longrightarrow> diagMessage resp = ''Unused'')"
    using assms
    by (auto simp: NewResponse_def message_GetID_def getResponseOpts_def Let_def
          applyOpts_withResponseCode applyOpts_withMatchedDN applyOpts_withDiagnosticMessage
          responseDefaults_def LDAPResultUnwillingToPerform_def
          split: option.splits)
next
  show "\<exists>resp. NewBindResponse r opt = Inr resp \<and> matchedDN resp = [] \<and> diagMessage resp = []"
    using assms
    by (auto simp: NewBindResponse_def message_GetID_def Let_def split: option.splits)
next
  show "\<exists>resp. NewExtendedResponse r opt = Inr resp \<and> matchedDN resp = [] \<and> diagMessage resp = []"
    using assms
    by (auto simp: NewExtendedResponse_def message_GetID_def Let_def split: option.splits)
next
  show "\<exists>resp. NewSearchDoneResponse r opt = Inr resp \<and> matchedDN resp = [] \<and> diagMessage resp = []"
    using assms
    by (auto simp: NewSearchDoneResponse_def message_GetID_def Let_def split: option.splits)
next
  show "\<exists>resp. NewSearchResponseEntry r entryDN opt = Inr resp
          \<and> matchedDN resp = [] \<and> diagMessage resp = []"
    using assms
    by (auto simp: NewSearchResponseEntry_def message_GetID_def Let_def split: option.splits)
qed

text \<open>
  Witness for C7: a bind request and the options \<open>WithApplicationCode 1\<close> for
  \<open>NewResponse\<close>, whose response has code 53 and \<^verbatim>\<open>Unused\<close> twice, and the same
  request with a matched DN and a diagnostic message among the options for
  \<open>NewBindResponse\<close>, whose response has neither.
\<close>

theorem NewResponse_defaults_witness:
  "NewResponse
     \<lparr>ID = 7, conn = Some (Conn 1),
      message = Some (MsgSimpleBind \<lparr>msgID = 7, AuthChoice = ''simple''\<rparr>),
      routeOp = bindRouteOperation, extendedName = []\<rparr>
     [WithApplicationCode 1]
   = Inr \<lparr>messageID = 7, code = 53, diagMessage = ''Unused'', matchedDN = ''Unused''\<rparr>
   \<and> (\<exists>resp. NewBindResponse
     \<lparr>ID = 7, conn = Some (Conn 1),
      message = Some (MsgSimpleBind \<lparr>msgID = 7, AuthChoice = ''simple''\<rparr>),
      routeOp = bindRouteOperation, extendedName = []\<rparr>
     [WithMatchedDN ''cn=admin'', WithDiagnosticMessage ''ok''] = Inr resp
       \<and> matchedDN resp = [] \<and> diagMessage resp = [])"
proof -
  let ?m = "MsgSimpleBind \<lparr>msgID = 7, AuthChoice = ''simple''\<rparr>"
  let ?r = "\<lparr>ID = 7, conn = Some (Conn 1), message = Some ?m,
      routeOp = bindRouteOperation, extendedName = []\<rparr>"
  have h: "Request.message ?r = Some ?m" by simp
  obtain resp where r: "NewResponse ?r [WithApplicationCode 1] = Inr resp"
    and c: "code resp = 53" and d: "matchedDN resp = ''Unused''"
    and g: "diagMessage resp = ''Unused''"
    using NewResponse_defaults [OF h, of "[WithApplicationCode 1]", THEN conjunct1] by auto
  have i: "messageID resp = 7"
    using r by (auto simp: NewResponse_def message_GetID_def Let_def split: option.splits)
  from c d g i have "resp = \<lparr>messageID = 7, code = 53, diagMessage = ''Unused'', matchedDN = ''Unused''\<rparr>"
    by (cases resp) simp
  with r have one: "NewResponse ?r [WithApplicationCode 1]
      = Inr \<lparr>messageID = 7, code = 53, diagMessage = ''Unused'', matchedDN = ''Unused''\<rparr>"
    by simp
  have two: "\<exists>resp. NewBindResponse ?r [WithMatchedDN ''cn=admin'', WithDiagnosticMessage ''ok'']
                 = Inr resp \<and> matchedDN resp = [] \<and> diagMessage resp = []"
    using NewResponse_defaults [OF h, of "[WithMatchedDN ''cn=admin'', WithDiagnosticMessage ''ok'']",
            THEN conjunct2, THEN conjunct1] .
  from one two show ?thesis by (rule conjI)
qed

text \<open>
  Counterexample to C7 as stated: a bind response built with no option has the
  empty string, not \<^verbatim>\<open>Unused\<close>, as its matchedDN and as its diagnostic message.
\<close>

theorem NewBindResponse_Unused_counterexample:
  "NewBindResponse
     \<lparr>ID = 7, conn = Some (Conn 1),
      message = Some (MsgSimpleBind \<lparr>msgID = 7, AuthChoice = ''simple''\<rparr>),
      routeOp = bindRouteOperation, extendedName = []\<rparr>
     []
   = Inr \<lparr>messageID = 7, code = 0, diagMessage = [], matchedDN = []\<rparr>
   \<and> ([] :: string) \<noteq> ''Unused''"
  by (simp add: NewBindResponse_def message_GetID_def getResponseOpts_def responseDefaults_def)

text \<open>
  Claim C9.  For a request with a message, each of the five constructors returns
  a response whose messageID is the id of the request's message, whatever the
  options (and, for a search entry, whatever the entry's DN).
\<close>

theorem response_messageID:
  assumes "Request.message r = Some m"
  shows "(\<exists>resp. NewResponse r opt = Inr resp \<and> messageID resp = GetID m)
     \<and> (\<exists>resp. NewBindResponse r opt = Inr resp \<and> messageID resp = GetID m)
     \<and> (\<exists>resp. NewExtendedResponse r opt = Inr resp \<and> messageID resp = GetID m)
     \<and> (\<exists>resp. NewSearchDoneResponse r opt = Inr resp \<and> messageID resp = GetID m)
     \<and> (\<exists>resp. NewSearchResponseEntry r entryDN opt = Inr resp \<and> messageID resp = GetID m)"
  using assms
  by (auto simp: NewResponse_def NewBindResponse_def NewExtendedResponse_def
        NewSearchDoneResponse_def NewSearchResponseEntry_def message_GetID_def Let_def
        split: option.splits)

text \<open>
  Witness for C9: a search request with message id 42 and a response code among
  the options; all five responses carry 42.
\<close>

theorem response_messageID_witness:
  "(\<exists>resp. NewResponse
      \<lparr>ID = 42, conn = Some (Conn 3),
       message = Some (MsgSearch \<lparr>msgID = 42, BaseDN = ''dc=example,dc=org'', Scope = 2,
                                  Filter = ''(cn=a)''\<rparr>),
       routeOp = searchRouteOperation, extendedName = []\<rparr>
      [WithResponseCode 32] = Inr resp \<and> messageID resp = 42)
   \<and> (\<exists>resp. NewSearchResponseEntry
      \<lparr>ID = 42, conn = Some (Conn 3),
       message = Some (MsgSearch \<lparr>msgID = 42, BaseDN = ''dc=example,dc=org'', Scope = 2,
                                  Filter = ''(cn=a)''\<rparr>),
       routeOp = searchRouteOperation, extendedName = []\<rparr>
      ''cn=a,dc=example,dc=org'' [WithResponseCode 32] = Inr resp \<and> messageID resp = 42)"
proof -
  let ?m = "MsgSearch \<lparr>msgID = 42, BaseDN = ''dc=example,dc=org'', Scope = 2, Filter = ''(cn=a)''\<rparr>"
  let ?r = "\<lparr>ID = 42, conn = Some (Conn 3), message = Some ?m,
       routeOp = searchRouteOperation, extendedName = []\<rparr>"
  have h: "Request.message ?r = Some ?m" by simp
  show ?thesis
    using response_messageID [OF h, of "[WithResponseCode 32]" "''cn=a,dc=example,dc=org''"]
    by simp
qed

section \<open>The server: results\<close>

lemma starts_with_append: "starts_with (ys @ zs) ys"
  by (induction ys) simp_all

lemma strings_Contains_suffix: "strings_Contains (xs @ ys) ys"
proof (induction xs)
  case Nil
  show ?case
    by (cases ys) (simp_all add: starts_with_append [of _ "[]", simplified])
next
  case (Cons x xs)
  then show ?case by simp
qed

lemma Listener_Close_closed:
  assumes "closed l"
  shows "\<exists>err. Listener_Close l = (Some err, l)
           \<and> strings_Contains (Error err) ''use of closed network connection''"
proof -
  have "strings_Contains ((''close tcp '' @ addr l @ '': '') @ ''use of closed network connection'')
          ''use of closed network connection''"
    by (rule strings_Contains_suffix)
  with assms show ?thesis
    by (simp add: Listener_Close_def del: strings_Contains.simps)
qed

text \<open>
  What \<open>Stop\<close> does with the result of closing the listener.  When the listener
  has been closed already and no connection worker is outstanding, \<open>Stop\<close>
  returns nil: the error of the close has the text
  \<^verbatim>\<open>use of closed network connection\<close>, and \<open>Stop\<close> passes over an error with that
  text.  An error of the close without that text is returned, wrapped, before the
  context is cancelled.
\<close>

lemma Stop_closed_listener:
  assumes "listener s = Some l" and "closed l" and "connWg s = 0"
  shows "\<exists>s'. Stop s = Some (None, s')"
proof -
  from Listener_Close_closed [OF assms(2)] obtain err
    where e: "Listener_Close l = (Some err, l)"
      and c: "strings_Contains (Error err) ''use of closed network connection''"
    by blast
  have "Stop_listener s = Inr (s\<lparr>listener := Some l\<rparr>)"
    using assms(1) e c by (simp add: Stop_listener_def)
  then show ?thesis
    using assms(1,3) by (simp add: Stop_def call_cancel_def split: option.splits)
qed

lemma Stop_close_fault:
  assumes "listener s = Some l" and "\<not> closed l" and "closeFault l = Some e"
    and "\<not> strings_Contains e ''use of closed network connection''"
  shows "Stop s = Some (Some (Errorf ''gldap.(Server).Stop: '' (NetErr e)), s)"
  using assms by (simp add: Stop_def Stop_listener_def Listener_Close_def)

lemma Stop_open_listener:
  assumes "listener s = Some l" and "\<not> closed l" and "closeFault l = None"
    and "connWg s = 0" and "shutdownCancel s = Some k"
  shows "Stop s = Some (None, call_cancel k (s\<lparr>listener := Some (l\<lparr>closed := True\<rparr>)\<rparr>))"
  using assms by (simp add: Stop_def Stop_listener_def Listener_Close_def call_cancel_def)

text \<open>
  Claim C3 says that \<open>Stop\<close> on a server whose listener was closed from outside
  returns an error with the text \<^verbatim>\<open>use of closed network connection\<close>, and the
  test case \<^verbatim>\<open>listener-closed\<close> of \<^verbatim>\<open>TestServer_Stop\<close> asserts it.  On the server
  that test builds (a fresh server, given a listener that is closed already and
  the cancel function of another context) \<open>Stop\<close> returns nil and leaves the
  server as it was.
\<close>

theorem Stop_listener_closed_returns_nil:
  "Stop ((NewServer \<lparr>withReadTimeout = 0, withWriteTimeout = 0,
                      withDisablePanicRecovery = False\<rparr>)
          \<lparr>listener := Some \<lparr>addr = ''[::]:3890'', closed = True, closeFault = None\<rparr>,
           shutdownCancel := Some 1\<rparr>)
   = Some (None,
       (NewServer \<lparr>withReadTimeout = 0, withWriteTimeout = 0,
                   withDisablePanicRecovery = False\<rparr>)
          \<lparr>listener := Some \<lparr>addr = ''[::]:3890'', closed = True, closeFault = None\<rparr>,
           shutdownCancel := Some 1\<rparr>)"
  by code_simp

text \<open>
  Claim C4.  On a server as \<open>NewServer\<close> returns it, whose listener is nil,
  \<open>Stop\<close> returns nil; the one change is that the server's context is cancelled.
\<close>

theorem Stop_never_ran:
  "Stop (NewServer opts)
   = Some (None, (NewServer opts)\<lparr>shutdownCtx := \<lparr>ctxID = 0, ctxDone = True\<rparr>\<rparr>)"
  by (simp add: Stop_def Stop_listener_def NewServer_def call_cancel_def)

text \<open>
  Claim C8.  \<open>Router\<close> with a nil mux returns an error that wraps
  \<open>ErrInvalidParameter\<close> and leaves the server, its route table included, as it
  was; with a mux \<open>r\<close> it returns nil and the server's route table is \<open>r\<close>.
\<close>

theorem Router_nil_or_installs:
  "(\<exists>e. Router s None = (Some e, s) \<and> errors_Is e ErrInvalidParameter)
   \<and> Router s (Some r) = (None, s\<lparr>router := Some r\<rparr>)
   \<and> router (snd (Router s (Some r))) = Some r"
  by (simp add: Router_def)

end
